theory Spec2Isabelle
  imports Complex_Main
begin

section \<open>Python values and errors\<close>

text \<open>
  The derived properties of \<^verbatim>\<open>hagadias/qudobject_props.py\<close> are pure reads of an
  object blueprint. Each property is embedded as a function returning \<open>error + 'a option\<close>:
  \<open>Inl\<close> is an exception that leaves the property, \<open>Inr None\<close> is Python's \<^verbatim>\<open>None\<close>
  (the property is absent), \<open>Inr (Some v)\<close> is a value.

  Python's \<^verbatim>\<open>float\<close> is modelled by \<open>real\<close>: the products, sums, \<^verbatim>\<open>math.ceil\<close> and
  \<^verbatim>\<open>int()\<close> of the source are computed exactly, the rounding of binary floating point
  is not part of the model.
\<close>

datatype error = ValueError | TypeError | KeyError | IndexError | AttributeError | RecursionError

type_synonym attrs = "(string \<times> string) list"

type_synonym elements = "(string \<times> attrs) list"

text \<open>
  A blueprint: its name, the XML elements it specifies itself (\<open>attributes\<close>), the elements
  after inheritance has been resolved (\<open>all_attributes\<close>), and the names of the blueprints
  it inherits from. Each table is a dictionary in insertion order: tag, then element name,
  then attribute name.
\<close>

record QudObject =
  name :: string
  attributes :: "(string \<times> elements) list"
  all_attributes :: "(string \<times> elements) list"
  inherits :: "string list"

record dice =
  minimum :: real
  maximum :: real
  average :: real

text \<open>
  What the properties use and the sources do not contain: the index of all blueprints,
  the dice parser \<^verbatim>\<open>DiceBag\<close>, the level-scaled value \<^verbatim>\<open>sValue\<close> (already converted
  with \<^verbatim>\<open>str\<close>), and three constant tables. They are parameters of every property.
\<close>

record env =
  qindex :: "string \<Rightarrow> QudObject option"
  DiceBag :: "string \<Rightarrow> error + dice"
  sValue :: "string \<Rightarrow> int \<Rightarrow> error + string"
  STAT_NAMES :: "string list"
  HARDCODED_CHARGE_USE :: "(string \<times> int) list"
  CHARGE_USE_REASONS :: "(string \<times> string) list"

subsection \<open>Attribute access\<close>

text \<open>
  Modelled from the spec: the object store (\<^verbatim>\<open>hagadias.qudobject.QudObject\<close>) is not among
  the sources. Its contract is \<^verbatim>\<open>fieldValue(entity, group, key, attribute)\<close> with
  nearest-ancestor fallback, \<^verbatim>\<open>isFieldPresent\<close>, \<^verbatim>\<open>inheritsFrom\<close> and
  \<^verbatim>\<open>resolveReference\<close>. The dynamic attribute \<^verbatim>\<open>self.part_Armor_AV\<close> is
  \<open>getattr3 e ''part'' ''Armor'' ''AV''\<close>, \<^verbatim>\<open>self.part_Armor\<close> is
  \<open>getattr2 e ''part'' ''Armor''\<close>, \<^verbatim>\<open>self.mutation\<close> is \<open>getattr1 e ''mutation''\<close>;
  a missing key at any depth gives \<^verbatim>\<open>None\<close>.
\<close>

definition getattr1 :: "QudObject \<Rightarrow> string \<Rightarrow> elements option" where
  "getattr1 e g = map_of (all_attributes e) g"

definition getattr2 :: "QudObject \<Rightarrow> string \<Rightarrow> string \<Rightarrow> attrs option" where
  "getattr2 e g k = (case getattr1 e g of None \<Rightarrow> None | Some els \<Rightarrow> map_of els k)"

definition getattr3 :: "QudObject \<Rightarrow> string \<Rightarrow> string \<Rightarrow> string \<Rightarrow> string option" where
  "getattr3 e g k a = (case getattr2 e g k of None \<Rightarrow> None | Some as \<Rightarrow> map_of as a)"

text \<open>
  Modelled from the spec: \<^verbatim>\<open>is_specified\<close> (\<^verbatim>\<open>isFieldPresent\<close>) looks the same path up
  in the elements the blueprint specifies itself; \<^verbatim>\<open>inherits_from\<close> asks for an ancestor.
\<close>

definition is_specified2 :: "QudObject \<Rightarrow> string \<Rightarrow> string \<Rightarrow> bool" where
  "is_specified2 e g k =
     (case map_of (attributes e) g of None \<Rightarrow> False | Some els \<Rightarrow> map_of els k \<noteq> None)"

definition is_specified3 :: "QudObject \<Rightarrow> string \<Rightarrow> string \<Rightarrow> string \<Rightarrow> bool" where
  "is_specified3 e g k a =
     (case map_of (attributes e) g of None \<Rightarrow> False
      | Some els \<Rightarrow> (case map_of els k of None \<Rightarrow> False | Some as \<Rightarrow> map_of as a \<noteq> None))"

definition inherits_from :: "QudObject \<Rightarrow> string \<Rightarrow> bool" where
  "inherits_from e anc = (anc \<in> set (inherits e))"

text \<open>Truth values of Python: \<^verbatim>\<open>None\<close>, the empty string and the empty dictionary are false.\<close>

definition truthy_str :: "string option \<Rightarrow> bool" where
  "truthy_str v = (case v of None \<Rightarrow> False | Some s \<Rightarrow> s \<noteq> [])"

definition truthy_dict :: "('k \<times> 'v) list option \<Rightarrow> bool" where
  "truthy_dict v = (case v of None \<Rightarrow> False | Some d \<Rightarrow> d \<noteq> [])"

definition truthy_int :: "int option \<Rightarrow> bool" where
  "truthy_int v = (case v of None \<Rightarrow> False | Some i \<Rightarrow> i \<noteq> 0)"

subsection \<open>The builtin \<^verbatim>\<open>int\<close>\<close>

text \<open>
  \<^verbatim>\<open>int(s)\<close> of a string of ASCII characters: surrounding whitespace is dropped, then
  an optional sign, then decimal digits, where single underscores may separate digits;
  anything else raises \<^verbatim>\<open>ValueError\<close>. \<^verbatim>\<open>int(None)\<close> raises \<^verbatim>\<open>TypeError\<close>.
\<close>

definition is_space :: "char \<Rightarrow> bool" where
  "is_space c =
     (c \<in> set [CHR '' '', CHR 0x09, CHR 0x0A, CHR 0x0B, CHR 0x0C, CHR 0x0D,
                CHR 0x1C, CHR 0x1D, CHR 0x1E, CHR 0x1F])"

definition is_digit :: "char \<Rightarrow> bool" where
  "is_digit c = (c \<in> set ''0123456789'')"

definition digit_val :: "char \<Rightarrow> int" where
  "digit_val c = int (of_char c) - 48"

definition strip :: "string \<Rightarrow> string" where
  "strip s = rev (dropWhile is_space (rev (dropWhile is_space s)))"

text \<open>The number that a non-empty string of decimal digits denotes.\<close>

definition nat_digits :: "string \<Rightarrow> int option" where
  "nat_digits s =
     (if s \<noteq> [] \<and> list_all is_digit s
      then Some (foldl (\<lambda>acc c. 10 * acc + digit_val c) 0 s) else None)"

text \<open>\<open>digits_value prev acc s\<close>: \<open>prev\<close> says that the character before \<open>s\<close> was a digit.\<close>

fun digits_value :: "bool \<Rightarrow> int \<Rightarrow> string \<Rightarrow> int option" where
  "digits_value prev acc [] = (if prev then Some acc else None)"
| "digits_value prev acc (c # cs) =
     (if is_digit c then digits_value True (10 * acc + digit_val c) cs
      else if c = CHR ''_'' \<and> prev then digits_value False acc cs
      else None)"

definition int_str :: "string \<Rightarrow> error + int" where
  "int_str s =
     (case strip s of
        [] \<Rightarrow> Inl ValueError
      | c # cs \<Rightarrow>
          if c = CHR ''-'' then
            (case digits_value False 0 cs of None \<Rightarrow> Inl ValueError | Some n \<Rightarrow> Inr (- n))
          else if c = CHR ''+'' then
            (case digits_value False 0 cs of None \<Rightarrow> Inl ValueError | Some n \<Rightarrow> Inr n)
          else
            (case digits_value False 0 (c # cs) of None \<Rightarrow> Inl ValueError | Some n \<Rightarrow> Inr n))"

definition int_opt :: "string option \<Rightarrow> error + int" where
  "int_opt v = (case v of None \<Rightarrow> Inl TypeError | Some s \<Rightarrow> int_str s)"

text \<open>\<^verbatim>\<open>int(x)\<close> of a float truncates toward zero.\<close>

definition int_float :: "real \<Rightarrow> int" where
  "int_float x = (if 0 \<le> x then \<lfloor>x\<rfloor> else \<lceil>x\<rceil>)"

text \<open>
  Modelled from the spec: \<^verbatim>\<open>hagadias.helpers.int_or_none\<close> is not among the sources. By
  its name and its call sites (\<^verbatim>\<open>xpvalue\<close> catches the \<^verbatim>\<open>ValueError\<close> it raises on
  a level such as "18-29") it keeps \<^verbatim>\<open>None\<close> and passes anything else to \<^verbatim>\<open>int\<close>.
\<close>

definition int_or_none :: "string option \<Rightarrow> error + int option" where
  "int_or_none v =
     (case v of None \<Rightarrow> Inr None
      | Some s \<Rightarrow> (case int_str s of Inl err \<Rightarrow> Inl err | Inr n \<Rightarrow> Inr (Some n)))"

text \<open>\<^verbatim>\<open>s.split('-')[0]\<close>: the text before the first hyphen.\<close>

definition split_first :: "string \<Rightarrow> string" where
  "split_first s = takeWhile (\<lambda>c. c \<noteq> CHR ''-'') s"

section \<open>Property helpers\<close>

definition ACTIVE_CHAR :: int where
  "ACTIVE_CHAR = 1"

definition INACTIVE_CHAR :: int where
  "INACTIVE_CHAR = 2"

definition active_or_inactive_character :: "QudObject \<Rightarrow> int" where
  "active_or_inactive_character e =
     (if (getattr3 e ''part'' ''Physics'' ''Takeable'' = Some ''false''
          \<or> getattr3 e ''part'' ''Physics'' ''Takeable'' = Some ''False'')
         \<and> getattr2 e ''part'' ''Gas'' = None
      then (if getattr2 e ''part'' ''Combat'' \<noteq> None \<and> getattr2 e ''part'' ''Brain'' \<noteq> None
            then 1 else 2)
      else 0)"

definition lv :: "QudObject \<Rightarrow> string option" where
  "lv e =
     (case getattr3 e ''stat'' ''Level'' ''sValue'' of
        None \<Rightarrow> getattr3 e ''stat'' ''Level'' ''Value''
      | Some level \<Rightarrow> Some level)"

definition role :: "QudObject \<Rightarrow> string option" where
  "role e = getattr3 e ''property'' ''Role'' ''Value''"

text \<open>
  The level as \<^verbatim>\<open>attribute_helper\<close> and \<^verbatim>\<open>tier\<close> read it:
  \<^verbatim>\<open>try: level = int(self.lv)\<close>, and on \<^verbatim>\<open>ValueError\<close>
  \<^verbatim>\<open>level = int(self.lv.split('-')[0])\<close>. Only \<^verbatim>\<open>ValueError\<close> is caught;
  \<^verbatim>\<open>None.split\<close> cannot be reached, since \<^verbatim>\<open>int(None)\<close> raises \<^verbatim>\<open>TypeError\<close>.
\<close>

definition level_of :: "string option \<Rightarrow> error + int" where
  "level_of l =
     (case l of
        None \<Rightarrow> Inl TypeError
      | Some s \<Rightarrow>
          (case int_str s of
             Inl ValueError \<Rightarrow> int_str (split_first s)
           | Inl err \<Rightarrow> Inl err
           | Inr n \<Rightarrow> Inr n))"

definition attribute_helper :: "env \<Rightarrow> QudObject \<Rightarrow> string \<Rightarrow> error + string option" where
  "attribute_helper env e attr =
     (if active_or_inactive_character e = ACTIVE_CHAR then
        (if truthy_str (getattr3 e ''stat'' attr ''sValue'') then
           (case level_of (lv e) of
              Inl err \<Rightarrow> Inl err
            | Inr level \<Rightarrow>
                (case sValue env (the (getattr3 e ''stat'' attr ''sValue'')) level of
                   Inl err \<Rightarrow> Inl err
                 | Inr val \<Rightarrow> Inr (Some val)))
         else if truthy_str (getattr3 e ''stat'' attr ''Value'') then
           Inr (getattr3 e ''stat'' attr ''Value'')
         else Inr None)
      else if inherits_from e ''Armor'' then Inr (getattr3 e ''part'' ''Armor'' attr)
      else Inr None)"

definition attribute_boost_factor :: "env \<Rightarrow> QudObject \<Rightarrow> string \<Rightarrow> error + real option" where
  "attribute_boost_factor env e attr =
     (if active_or_inactive_character e = ACTIVE_CHAR then
        (case int_or_none (getattr3 e ''stat'' attr ''Boost'') of
           Inl err \<Rightarrow> Inl err
         | Inr None \<Rightarrow> Inr None
         | Inr (Some boost0) \<Rightarrow>
             (if truthy_str (getattr3 e ''stat'' attr ''sValue'') then
                (let boost = (if role e = Some ''Minion'' \<and> attr \<in> set (STAT_NAMES env)
                              then boost0 - 1 else boost0)
                 in if boost > 0 then Inr (Some (0.25 * real_of_int boost + 1.0))
                    else Inr (Some (0.20 * real_of_int boost + 1.0)))
              else Inr None))
      else Inr None)"

definition attribute_helper_min_max_or_avg ::
  "env \<Rightarrow> QudObject \<Rightarrow> string \<Rightarrow> string \<Rightarrow> error + int option" where
  "attribute_helper_min_max_or_avg env e attr mode =
     (case attribute_helper env e attr of
        Inl err \<Rightarrow> Inl err
      | Inr None \<Rightarrow> Inr None
      | Inr (Some val_str) \<Rightarrow>
          (case attribute_boost_factor env e attr of
             Inl err \<Rightarrow> Inl err
           | Inr boost_factor \<Rightarrow>
               (case DiceBag env val_str of
                  Inl err \<Rightarrow> Inl err
                | Inr d \<Rightarrow>
                    (case boost_factor of
                       None \<Rightarrow>
                         (if mode = ''min'' then Inr (Some (int_float (minimum d)))
                          else if mode = ''max'' then Inr (Some (int_float (maximum d)))
                          else Inr (Some (int_float (average d))))
                     | Some f \<Rightarrow>
                         (let min_val = \<lceil>minimum d * f\<rceil> in
                          if mode = ''min'' then Inr (Some min_val)
                          else
                            (let max_val = \<lceil>maximum d * f\<rceil> in
                             if mode = ''max'' then Inr (Some max_val)
                             else
                               (let avg_val = real_of_int (min_val + max_val) / 2.0
                                in Inr (Some (int_float avg_val)))))))))"

definition attribute_helper_avg :: "env \<Rightarrow> QudObject \<Rightarrow> string \<Rightarrow> error + int option" where
  "attribute_helper_avg env e attr = attribute_helper_min_max_or_avg env e attr ''avg''"

definition attribute_helper_min :: "env \<Rightarrow> QudObject \<Rightarrow> string \<Rightarrow> error + int option" where
  "attribute_helper_min env e attr = attribute_helper_min_max_or_avg env e attr ''min''"

definition attribute_helper_max :: "env \<Rightarrow> QudObject \<Rightarrow> string \<Rightarrow> error + int option" where
  "attribute_helper_max env e attr = attribute_helper_min_max_or_avg env e attr ''max''"

definition attribute_helper_mod ::
  "env \<Rightarrow> QudObject \<Rightarrow> string \<Rightarrow> string \<Rightarrow> error + int option" where
  "attribute_helper_mod env e attr statmode =
     (case (if statmode = ''min'' then attribute_helper_min env e attr
            else if statmode = ''max'' then attribute_helper_max env e attr
            else attribute_helper_avg env e attr) of
        Inl err \<Rightarrow> Inl err
      | Inr None \<Rightarrow> Inr None
      | Inr (Some val) \<Rightarrow> Inr (Some ((val - 16) div 2)))"

section \<open>Derived properties\<close>

subsection \<open>Armor value and dodge value\<close>

definition wornon :: "QudObject \<Rightarrow> string option" where
  "wornon e =
     (if name e = ''Hooks'' then Some ''Feet''
      else if truthy_str (getattr3 e ''part'' ''Armor'' ''WornOn'')
        then getattr3 e ''part'' ''Armor'' ''WornOn''
      else if truthy_str (getattr3 e ''part'' ''Shield'' ''WornOn'')
        then getattr3 e ''part'' ''Shield'' ''WornOn''
      else None)"

text \<open>\<^verbatim>\<open>int(info['Level'])\<close>: a mutation without a Level raises \<^verbatim>\<open>KeyError\<close>.\<close>

definition info_level :: "attrs \<Rightarrow> error + int" where
  "info_level info = (case map_of info ''Level'' of None \<Rightarrow> Inl KeyError | Some l \<Rightarrow> int_str l)"

text \<open>
  One round of the mutation loop of \<^verbatim>\<open>av\<close>, on the pair of \<^verbatim>\<open>av\<close> and
  \<^verbatim>\<open>applied_body_av\<close>. The source tests the five names one after the other; a name
  equals at most one of them.
\<close>

definition av_mutation :: "string \<Rightarrow> attrs \<Rightarrow> int \<times> bool \<Rightarrow> error + int \<times> bool" where
  "av_mutation mutation info st =
     (if mutation = ''Carapace'' then
        (case info_level info of Inl err \<Rightarrow> Inl err
         | Inr l \<Rightarrow> Inr (fst st + (l div 2 + 3), True))
      else if mutation = ''Quills'' then
        (case info_level info of Inl err \<Rightarrow> Inl err
         | Inr l \<Rightarrow> Inr (fst st + (l div 3 + 2), True))
      else if mutation = ''Horns'' then
        (case info_level info of Inl err \<Rightarrow> Inl err
         | Inr l \<Rightarrow> Inr (fst st + ((l - 1) div 3 + 1), snd st))
      else if mutation = ''MultiHorns'' then
        (case info_level info of Inl err \<Rightarrow> Inl err
         | Inr l \<Rightarrow> Inr (fst st + (l + 1) div 4, snd st))
      else if mutation = ''SlogGlands'' then Inr (fst st + 1, snd st)
      else Inr st)"

fun av_mutations :: "elements \<Rightarrow> int \<times> bool \<Rightarrow> error + int \<times> bool" where
  "av_mutations [] st = Inr st"
| "av_mutations ((mutation, info) # rest) st =
     (case av_mutation mutation info st of
        Inl err \<Rightarrow> Inl err
      | Inr st' \<Rightarrow> av_mutations rest st')"

fun dv_mutations :: "elements \<Rightarrow> int \<times> bool \<Rightarrow> int \<times> bool" where
  "dv_mutations [] st = st"
| "dv_mutations ((mutation, info) # rest) st =
     dv_mutations rest (if mutation = ''Carapace'' then (fst st - 2, True) else st)"

text \<open>
  The inventory loop of \<^verbatim>\<open>av\<close> and of \<^verbatim>\<open>dv\<close> over the names of
  \<^verbatim>\<open>self.inventoryobject\<close>: \<open>item_value\<close> is the property \<^verbatim>\<open>item.av\<close>
  (\<^verbatim>\<open>item.dv\<close>) of the blueprint the name resolves to, \<open>applied\<close> is
  \<^verbatim>\<open>applied_body_av\<close> (\<^verbatim>\<open>applied_body_dv\<close>) and \<open>acc\<close> the running sum.
  \<^verbatim>\<open>name[0]\<close> of an empty name raises \<^verbatim>\<open>IndexError\<close>, a name the index does not have
  raises \<^verbatim>\<open>KeyError\<close>.
\<close>

fun add_inventory ::
  "env \<Rightarrow> (QudObject \<Rightarrow> error + int option) \<Rightarrow> bool \<Rightarrow> string list \<Rightarrow> int \<Rightarrow> error + int" where
  "add_inventory env item_value applied [] acc = Inr acc"
| "add_inventory env item_value applied (nm # names) acc =
     (case nm of
        [] \<Rightarrow> Inl IndexError
      | c # cs \<Rightarrow>
          if c \<in> set ''*#@'' then add_inventory env item_value applied names acc
          else
            (case qindex env nm of
               None \<Rightarrow> Inl KeyError
             | Some item \<Rightarrow>
                 (case item_value item of
                    Inl err \<Rightarrow> Inl err
                  | Inr v \<Rightarrow>
                      if truthy_int v \<and> (\<not> applied \<or> wornon item \<noteq> Some ''Body'')
                      then add_inventory env item_value applied names (acc + the v)
                      else add_inventory env item_value applied names acc)))"

text \<open>
  The loops over \<^verbatim>\<open>self.mutation.items()\<close> and \<^verbatim>\<open>self.inventoryobject.keys()\<close> are
  guarded by the truth value of the dictionary: a missing or empty dictionary gives no
  round.
\<close>

definition mutation_items :: "QudObject \<Rightarrow> elements" where
  "mutation_items e = (case getattr1 e ''mutation'' of None \<Rightarrow> [] | Some muts \<Rightarrow> muts)"

definition inventory_names :: "QudObject \<Rightarrow> string list" where
  "inventory_names e =
     (case getattr1 e ''inventoryobject'' of None \<Rightarrow> [] | Some items \<Rightarrow> map fst items)"

text \<open>
  \<^verbatim>\<open>av\<close> reads \<^verbatim>\<open>item.av\<close> of the blueprints in the inventory, which may have an
  inventory again. The first argument bounds the depth of these nested property reads:
  at depth 0 the interpreter's recursion limit is reached.
\<close>

primrec av :: "nat \<Rightarrow> env \<Rightarrow> QudObject \<Rightarrow> error + int option" where
  "av 0 env e = Inl RecursionError"
| "av (Suc depth) env e =
     (if active_or_inactive_character e > 0 then
        (case int_opt (getattr3 e ''stat'' ''AV'' ''Value'') of
           Inl err \<Rightarrow> Inl err
         | Inr base \<Rightarrow>
             (case av_mutations (mutation_items e) (base, False) of
                Inl err \<Rightarrow> Inl err
              | Inr st \<Rightarrow>
                  (case add_inventory env (av depth env) (snd st) (inventory_names e) (fst st) of
                     Inl err \<Rightarrow> Inl err
                   | Inr result \<Rightarrow> Inr (Some result))))
      else
        int_or_none
          (if truthy_str (getattr3 e ''part'' ''Shield'' ''AV'')
             then getattr3 e ''part'' ''Shield'' ''AV''
           else if truthy_str (getattr3 e ''part'' ''Armor'' ''AV'')
             then getattr3 e ''part'' ''Armor'' ''AV''
           else None))"

primrec dv :: "nat \<Rightarrow> env \<Rightarrow> QudObject \<Rightarrow> error + int option" where
  "dv 0 env e = Inl RecursionError"
| "dv (Suc depth) env e =
     (case (case getattr3 e ''part'' ''Armor'' ''DV'' of
              None \<Rightarrow> Inr None
            | Some s \<Rightarrow> int_or_none (Some s)) of
        Inl err \<Rightarrow> Inl err
      | Inr armor_dv \<Rightarrow>
          (if getattr3 e ''part'' ''Shield'' ''DV'' \<noteq> None
             then int_or_none (getattr3 e ''part'' ''Shield'' ''DV'')
           else if active_or_inactive_character e = INACTIVE_CHAR then Inr (Some (- 10))
           else if active_or_inactive_character e = ACTIVE_CHAR then
             (if is_specified3 e ''part'' ''Brain'' ''Mobile''
                 \<and> (getattr3 e ''part'' ''Brain'' ''Mobile'' = Some ''false''
                      \<or> getattr3 e ''part'' ''Brain'' ''Mobile'' = Some ''False'')
              then Inr (Some (- 10))
              else
                (case (case getattr3 e ''stat'' ''DV'' ''Value'' of
                         None \<Rightarrow> Inr 6
                       | Some s \<Rightarrow> (case int_str s of Inl err \<Rightarrow> Inl err | Inr n \<Rightarrow> Inr (6 + n))) of
                   Inl err \<Rightarrow> Inl err
                 | Inr dv1 \<Rightarrow>
                     (let dv2 = (if truthy_str (getattr3 e ''skill'' ''Acrobatics'' ''Dodge'')
                                 then dv1 + 2 else dv1);
                          dv3 = (if truthy_str (getattr3 e ''skill'' ''Acrobatics'' ''Tumble'')
                                 then dv2 + 1 else dv2)
                      in case attribute_helper_mod env e ''Agility'' ''avg'' of
                           Inl err \<Rightarrow> Inl err
                         | Inr None \<Rightarrow> Inl TypeError
                         | Inr (Some agility_mod) \<Rightarrow>
                             (let st = dv_mutations (mutation_items e) (dv3 + agility_mod, False)
                              in case add_inventory env (dv depth env) (snd st)
                                        (inventory_names e) (fst st) of
                                   Inl err \<Rightarrow> Inl err
                                 | Inr result \<Rightarrow> Inr (Some result)))))
           else Inr armor_dv))"

subsection \<open>Mental armor\<close>





subsection \<open>Level, tier and experience\<close>

definition tier :: "QudObject \<Rightarrow> error + int option" where
  "tier e =
     (if \<not> is_specified3 e ''tag'' ''Tier'' ''Value'' then
        (if is_specified3 e ''part'' ''TinkerItem'' ''Bits'' then
           (case getattr3 e ''part'' ''TinkerItem'' ''Bits'' of
              None \<Rightarrow> Inl TypeError
            | Some bits \<Rightarrow>
                (case rev bits of
                   [] \<Rightarrow> Inl IndexError
                 | val # front \<Rightarrow> if is_digit val then Inr (Some (digit_val val)) else Inr (Some 0)))
         else if lv e \<noteq> None then
           (case level_of (lv e) of
              Inl err \<Rightarrow> Inl err
            | Inr level \<Rightarrow> Inr (Some (level div 5)))
         else int_or_none (getattr3 e ''tag'' ''Tier'' ''Value''))
      else int_or_none (getattr3 e ''tag'' ''Tier'' ''Value''))"

text \<open>
  \<^verbatim>\<open>xpvalue\<close> and \<^verbatim>\<open>xptier\<close> read the level with \<^verbatim>\<open>int_or_none\<close> and catch its
  \<^verbatim>\<open>ValueError\<close>: the level is then \<^verbatim>\<open>None\<close>.
\<close>

definition caught_level :: "QudObject \<Rightarrow> error + int option" where
  "caught_level e =
     (case int_or_none (lv e) of
        Inl ValueError \<Rightarrow> Inr None
      | Inl err \<Rightarrow> Inl err
      | Inr level \<Rightarrow> Inr level)"

definition xpvalue :: "QudObject \<Rightarrow> error + int option" where
  "xpvalue e =
     (case caught_level e of
        Inl err \<Rightarrow> Inl err
      | Inr None \<Rightarrow> Inr None
      | Inr (Some level) \<Rightarrow>
          (let xp_value = (if truthy_str (getattr3 e ''stat'' ''XPValue'' ''sValue'')
                           then getattr3 e ''stat'' ''XPValue'' ''sValue''
                           else getattr3 e ''stat'' ''XPValue'' ''Value'')
           in if \<not> truthy_str xp_value then Inr None
              else if xp_value = Some ''*XP'' then
                (let r = (case role e of None \<Rightarrow> ''Minion'' | Some r \<Rightarrow> r)
                 in if r = ''Minion'' then Inr (Some (level * 10))
                    else if r = ''Leader'' then Inr (Some (level * 50))
                    else if r = ''Hero'' then Inr (Some (level * 100))
                    else Inr (Some (level * 25)))
              else int_or_none xp_value))"

definition xptier :: "QudObject \<Rightarrow> error + int option" where
  "xptier e =
     (case caught_level e of
        Inl err \<Rightarrow> Inl err
      | Inr None \<Rightarrow> Inr None
      | Inr (Some level) \<Rightarrow> Inr (Some (level div 5)))"

subsection \<open>Quickness\<close>

fun quickness_mutations :: "elements \<Rightarrow> int \<Rightarrow> error + int" where
  "quickness_mutations [] mutation_val = Inr mutation_val"
| "quickness_mutations ((mutation, info) # rest) mutation_val =
     (if mutation = ''ColdBlooded'' then quickness_mutations rest (mutation_val - 10)
      else if mutation = ''HeightenedSpeed'' then
        (case info_level info of
           Inl err \<Rightarrow> Inl err
         | Inr l \<Rightarrow> quickness_mutations rest (mutation_val + (l * 2 + 13)))
      else quickness_mutations rest mutation_val)"

text \<open>
  The \<^verbatim>\<open>return\<close> of the source is
  \<^verbatim>\<open>mutation_val + 100 if self.stat_Speed_Value is None else int(self.stat_Speed_Value)\<close>:
  the conditional expression binds more loosely than \<^verbatim>\<open>+\<close>, so the sum is its first
  branch only.
\<close>

definition quickness :: "QudObject \<Rightarrow> error + int option" where
  "quickness e =
     (if active_or_inactive_character e = ACTIVE_CHAR then
        (case quickness_mutations (mutation_items e) 0 of
           Inl err \<Rightarrow> Inl err
         | Inr mutation_val \<Rightarrow>
             if mutation_val \<noteq> 0 then
               (case getattr3 e ''stat'' ''Speed'' ''Value'' of
                  None \<Rightarrow> Inr (Some (mutation_val + 100))
                | Some speed \<Rightarrow>
                    (case int_str speed of Inl err \<Rightarrow> Inl err | Inr n \<Rightarrow> Inr (Some n)))
             else int_or_none (getattr3 e ''stat'' ''Speed'' ''Value''))
      else if truthy_dict (getattr2 e ''part'' ''Armor'')
        then int_or_none (getattr3 e ''part'' ''Armor'' ''SpeedBonus'')
      else Inr None)"

subsection \<open>Charge use\<close>

text \<open>\<^verbatim>\<open>self.all_attributes['part']\<close>: the names of the parts, \<^verbatim>\<open>KeyError\<close> without any.\<close>

definition part_names :: "QudObject \<Rightarrow> error + string list" where
  "part_names e =
     (case map_of (all_attributes e) ''part'' of
        None \<Rightarrow> Inl KeyError
      | Some parts \<Rightarrow> Inr (map fst parts))"

fun charge_loop :: "QudObject \<Rightarrow> string list \<Rightarrow> int \<Rightarrow> error + int" where
  "charge_loop e [] charge = Inr charge"
| "charge_loop e (part # parts) charge =
     (if part = ''ProgrammableRecoiler'' then charge_loop e parts charge
      else
        (case getattr3 e ''part'' part ''ChargeUse'' of
           None \<Rightarrow> charge_loop e parts charge
         | Some chg \<Rightarrow>
             (case int_str chg of
                Inl err \<Rightarrow> Inl err
              | Inr n \<Rightarrow>
                  if n > 0 then charge_loop e parts (charge + n)
                  else charge_loop e parts charge)))"

definition chargeused :: "env \<Rightarrow> QudObject \<Rightarrow> error + int option" where
  "chargeused env e =
     (case part_names e of
        Inl err \<Rightarrow> Inl err
      | Inr parts \<Rightarrow>
          (case charge_loop e parts 0 of
             Inl err \<Rightarrow> Inl err
           | Inr charge0 \<Rightarrow>
               (let charge = (case map_of (HARDCODED_CHARGE_USE env) (name e) of
                                None \<Rightarrow> charge0
                              | Some hardcoded \<Rightarrow> hardcoded)
                in if charge > 0 then Inr (Some charge) else Inr None)))"

definition charge_func :: "QudObject \<Rightarrow> string \<Rightarrow> string" where
  "charge_func e part =
     (if part = ''StunOnHit'' then ''Stun effect''
      else if part = ''EnergyAmmoLoader'' \<or> part = ''Gaslight'' then ''Weapon Power''
      else if part = ''VibroWeapon'' then ''Adaptive Penetration''
      else if part = ''MechanicalWings'' then ''Flight''
      else if part = ''RocketSkates'' then ''Power Skate''
      else if part = ''GeomagneticDisc'' then ''Throw Effect''
      else if part = ''Teleporter'' then ''Teleportation''
      else if part = ''EquipStatBoost'' then ''Stat Boost''
      else if part = ''PartsGas'' then ''Gas Dispersion''
      else if part = ''ReduceCooldowns'' then ''Cooldown Reduction''
      else if part = ''RealityStabilization'' then ''Reality Stabilization''
      else if part = ''LatchesOn'' then ''Latch Effect''
      else if part = ''Toolbox'' then ''Tinker Bonus''
      else if part = ''ConversationScript'' then ''Audio Processing''
      else
        (case getattr3 e ''part'' part ''NameForStatus'' of
           Some status \<Rightarrow> status
         | None \<Rightarrow> if part = ''Chair'' then ''Chair Effect'' else part))"

text \<open>
  The loop of \<^verbatim>\<open>chargefunction\<close>: for each contributing part, in order, the pair of
  its entry in \<^verbatim>\<open>funcs\<close> and its entry in \<^verbatim>\<open>detailedfuncs\<close>.
\<close>

fun function_loop :: "QudObject \<Rightarrow> string list \<Rightarrow> error + (string \<times> string) list" where
  "function_loop e [] = Inr []"
| "function_loop e (part # parts) =
     (if part = ''ProgrammableRecoiler'' then function_loop e parts
      else
        (case getattr3 e ''part'' part ''ChargeUse'' of
           None \<Rightarrow> function_loop e parts
         | Some chg \<Rightarrow>
             (case int_str chg of
                Inl err \<Rightarrow> Inl err
              | Inr n \<Rightarrow>
                  if n > 0 then
                    (case function_loop e parts of
                       Inl err \<Rightarrow> Inl err
                     | Inr fs \<Rightarrow>
                         Inr ((charge_func e part, charge_func e part @ '' ['' @ chg @ '']'') # fs))
                  else function_loop e parts)))"

fun show_nat :: "nat \<Rightarrow> string" where
  "show_nat n =
     (if n < 10 then [''0123456789'' ! n]
      else show_nat (n div 10) @ [''0123456789'' ! (n mod 10)])"

definition show_int :: "int \<Rightarrow> string" where
  "show_int i = (if i < 0 then CHR ''-'' # show_nat (nat (- i)) else show_nat (nat i))"

fun join :: "string \<Rightarrow> string list \<Rightarrow> string" where
  "join sep [] = []"
| "join sep [x] = x"
| "join sep (x # y # ys) = x @ sep @ join sep (y # ys)"

definition chargefunction :: "env \<Rightarrow> QudObject \<Rightarrow> error + string option" where
  "chargefunction env e =
     (case part_names e of
        Inl err \<Rightarrow> Inl err
      | Inr parts \<Rightarrow>
          (case function_loop e parts of
             Inl err \<Rightarrow> Inl err
           | Inr fs \<Rightarrow>
               (let fs' =
                  (case map_of (CHARGE_USE_REASONS env) (name e) of
                     None \<Rightarrow> fs
                   | Some func \<Rightarrow>
                       (case map_of (HARDCODED_CHARGE_USE env) (name e) of
                          Some hardcoded \<Rightarrow>
                            fs @ [(func, func @ '' ['' @ show_int hardcoded @ '']'')]
                        | None \<Rightarrow> fs @ [(func, func)]))
                in if length fs' = 0 then Inr None
                   else if length fs' = 1 then Inr (Some (fst (hd fs')))
                   else Inr (Some (join '', '' (map snd fs'))))))"

subsection \<open>Projectiles\<close>

text \<open>
  \<^verbatim>\<open>projectile_object\<close> returns the projectile's blueprint, or with a \<^verbatim>\<open>part_attr\<close>
  the value of that attribute of the projectile. \<open>None\<close> stands for the empty
  \<^verbatim>\<open>part_attr\<close>, a triple for an attribute name such as
  \<^verbatim>\<open>part_Projectile_Attributes\<close>. The five loaders are tried in the order of the source.
\<close>

datatype projectile = Blueprint QudObject | Attribute string

fun projectile_loop ::
  "env \<Rightarrow> QudObject \<Rightarrow> (string \<times> string \<times> string) option \<Rightarrow> string list
   \<Rightarrow> error + projectile option" where
  "projectile_loop env e part_attr [] = Inr None"
| "projectile_loop env e part_attr (part # parts) =
     (case getattr3 e ''part'' part ''ProjectileObject'' of
        None \<Rightarrow> projectile_loop env e part_attr parts
      | Some attr \<Rightarrow>
          if attr \<noteq> [] then
            (case qindex env attr of
               None \<Rightarrow> Inl KeyError
             | Some item \<Rightarrow>
                 (case part_attr of
                    None \<Rightarrow> Inr (Some (Blueprint item))
                  | Some (g, k, a) \<Rightarrow> Inr (map_option Attribute (getattr3 item g k a))))
          else projectile_loop env e part_attr parts)"

definition projectile_object ::
  "env \<Rightarrow> QudObject \<Rightarrow> (string \<times> string \<times> string) option \<Rightarrow> error + projectile option" where
  "projectile_object env e part_attr =
     (if getattr2 e ''part'' ''MissileWeapon'' \<noteq> None \<or> is_specified2 e ''part'' ''AmmoArrow''
      then projectile_loop env e part_attr
             [''BioAmmoLoader'', ''AmmoArrow'', ''MagazineAmmoLoader'', ''EnergyAmmoLoader'',
              ''LiquidAmmoLoader'']
      else Inr None)"

text \<open>
  \<^verbatim>\<open>projectile.is_specified\<close> raises \<^verbatim>\<open>AttributeError\<close> when \<^verbatim>\<open>projectile\<close> is
  \<^verbatim>\<open>None\<close>; the property returns \<^verbatim>\<open>True\<close> or nothing.
\<close>

definition omniphaseprojectile :: "env \<Rightarrow> QudObject \<Rightarrow> error + bool option" where
  "omniphaseprojectile env e =
     (case projectile_object env e None of
        Inl err \<Rightarrow> Inl err
      | Inr None \<Rightarrow> Inl AttributeError
      | Inr (Some (Attribute s)) \<Rightarrow> Inl AttributeError
      | Inr (Some (Blueprint p)) \<Rightarrow>
          if is_specified2 p ''part'' ''OmniphaseProjectile'' \<or> is_specified2 p ''tag'' ''Omniphase''
          then Inr (Some True) else Inr None)"

lemmas property_defs =
  tier_def caught_level_def xpvalue_def xptier_def quickness_def part_names_def chargeused_def
  charge_func_def chargefunction_def show_int_def projectile_object_def omniphaseprojectile_def

section \<open>Dice expressions and example blueprints\<close>

text \<open>
  Modelled from the spec: \<^verbatim>\<open>hagadias.dicebag.DiceBag\<close> is not among the sources. A flat
  integer string has minimum, maximum and average that integer; "N-M" with N at most
  M has minimum N, maximum M and average (N+M)/2; "AdB", "AdB+C" and "AdB-C" with A and
  B at least 1 have minimum A+C, maximum A*B+C and average A*(B+1)/2+C; any other string
  is malformed. The properties take the parser as a parameter; this one instantiates it
  in the examples.
\<close>

definition roll :: "int \<Rightarrow> int \<Rightarrow> int \<Rightarrow> error + dice" where
  "roll a b c =
     (if 1 \<le> a \<and> 1 \<le> b
      then Inr \<lparr>minimum = real_of_int (a + c), maximum = real_of_int (a * b + c),
                average = real_of_int (a * (b + 1)) / 2 + real_of_int c\<rparr>
      else Inl ValueError)"

definition DiceBag_spec :: "string \<Rightarrow> error + dice" where
  "DiceBag_spec s =
     (case int_str s of
        Inr n \<Rightarrow> Inr \<lparr>minimum = real_of_int n, maximum = real_of_int n, average = real_of_int n\<rparr>
      | Inl err \<Rightarrow>
          (case (nat_digits (takeWhile is_digit s), dropWhile is_digit s) of
             (Some a, c # rest) \<Rightarrow>
               (if c = CHR ''-'' then
                  (case nat_digits rest of
                     Some m \<Rightarrow>
                       (if a \<le> m
                        then Inr \<lparr>minimum = real_of_int a, maximum = real_of_int m,
                                  average = real_of_int (a + m) / 2\<rparr>
                        else Inl ValueError)
                   | None \<Rightarrow> Inl ValueError)
                else if c = CHR ''d'' then
                  (case (nat_digits (takeWhile is_digit rest), dropWhile is_digit rest) of
                     (Some b, []) \<Rightarrow> roll a b 0
                   | (Some b, sign # const) \<Rightarrow>
                       (case nat_digits const of
                          Some k \<Rightarrow>
                            (if sign = CHR ''+'' then roll a b k
                             else if sign = CHR ''-'' then roll a b (- k)
                             else Inl ValueError)
                        | None \<Rightarrow> Inl ValueError)
                   | (None, rest') \<Rightarrow> Inl ValueError)
                else Inl ValueError)
           | (Some a, []) \<Rightarrow> Inl ValueError
           | (None, rest) \<Rightarrow> Inl ValueError))"

text \<open>A level-scaled value without level-dependent parts: it resolves to itself.\<close>

definition plain_sValue :: "string \<Rightarrow> int \<Rightarrow> error + string" where
  "plain_sValue spec level = Inr spec"

text \<open>A blueprint without ancestors: it specifies all of its elements itself.\<close>

definition blueprint :: "string \<Rightarrow> (string \<times> elements) list \<Rightarrow> QudObject" where
  "blueprint n els = \<lparr>name = n, attributes = els, all_attributes = els, inherits = []\<rparr>"

definition creature_parts :: elements where
  "creature_parts = [(''Physics'', [(''Takeable'', ''false'')]), (''Combat'', []), (''Brain'', [])]"

definition wall_parts :: elements where
  "wall_parts = [(''Physics'', [(''Takeable'', ''false'')])]"

definition strength_creature :: "string \<Rightarrow> attrs \<Rightarrow> attrs \<Rightarrow> QudObject" where
  "strength_creature n strength role_property =
     blueprint n
       [(''part'', creature_parts),
        (''stat'', [(''Level'', [(''Value'', ''10'')]), (''Strength'', strength)]),
        (''property'', [(''Role'', role_property)])]"

definition example_env :: env where
  "example_env =
     \<lparr>qindex = Map.empty, DiceBag = DiceBag_spec, sValue = plain_sValue,
      STAT_NAMES = [''Strength'', ''Agility'', ''Toughness'', ''Intelligence'', ''Willpower'', ''Ego''],
      HARDCODED_CHARGE_USE = [], CHARGE_USE_REASONS = []\<rparr>"

lemmas store_defs =
  getattr1_def getattr2_def getattr3_def is_specified2_def is_specified3_def inherits_from_def
  truthy_str_def truthy_dict_def truthy_int_def blueprint_def

lemmas int_defs =
  int_str_def int_opt_def int_or_none_def strip_def is_space_def is_digit_def digit_val_def
  split_first_def level_of_def int_float_def


lemmas attribute_defs =
  active_or_inactive_character_def ACTIVE_CHAR_def INACTIVE_CHAR_def lv_def role_def
  attribute_helper_def attribute_boost_factor_def attribute_helper_min_max_or_avg_def
  attribute_helper_avg_def attribute_helper_min_def attribute_helper_max_def
  attribute_helper_mod_def

lemmas example_defs =
  example_env_def plain_sValue_def creature_parts_def wall_parts_def strength_creature_def

definition boosted_creature :: QudObject where
  "boosted_creature =
     strength_creature ''BoostedCreature'' [(''sValue'', ''14-18''), (''Boost'', ''2'')] []"

definition drained_creature :: QudObject where
  "drained_creature =
     strength_creature ''DrainedCreature'' [(''sValue'', ''14-17''), (''Boost'', ''-10'')] []"

definition weakened_creature :: QudObject where
  "weakened_creature =
     strength_creature ''WeakenedCreature'' [(''sValue'', ''14-18''), (''Boost'', ''-1'')] []"

definition minion_creature :: QudObject where
  "minion_creature =
     strength_creature ''MinionCreature'' [(''sValue'', ''14-18''), (''Boost'', ''2'')]
       [(''Value'', ''Minion'')]"

definition unscaled_creature :: QudObject where
  "unscaled_creature =
     strength_creature ''UnscaledCreature'' [(''Value'', ''16''), (''Boost'', ''2'')] []"

definition flat_creature :: "string \<Rightarrow> QudObject" where
  "flat_creature v = strength_creature ''FlatCreature'' [(''Value'', v)] []"

lemmas creature_defs =
  boosted_creature_def drained_creature_def weakened_creature_def minion_creature_def
  unscaled_creature_def

subsection \<open>A creature with armor in its inventory\<close>

definition leather_armor :: QudObject where
  "leather_armor =
     blueprint ''LeatherArmor'' [(''part'', [(''Armor'', [(''AV'', ''3''), (''WornOn'', ''Body'')])])]"

definition iron_helmet :: QudObject where
  "iron_helmet =
     blueprint ''IronHelmet'' [(''part'', [(''Armor'', [(''AV'', ''1''), (''WornOn'', ''Head'')])])]"

definition wardrobe_env :: env where
  "wardrobe_env =
     example_env\<lparr>qindex := map_of [(''LeatherArmor'', leather_armor), (''IronHelmet'', iron_helmet)]\<rparr>"

definition armored_creature :: "elements \<Rightarrow> QudObject" where
  "armored_creature mutations =
     blueprint ''ArmoredCreature''
       [(''part'', creature_parts),
        (''stat'', [(''AV'', [(''Value'', ''2'')])]),
        (''mutation'', mutations),
        (''inventoryobject'', [(''*Junk 1'', []), (''LeatherArmor'', []), (''IronHelmet'', [])])]"

lemmas wardrobe_defs = leather_armor_def iron_helmet_def wardrobe_env_def armored_creature_def

lemmas av_defs = wornon_def info_level_def av_mutation_def mutation_items_def inventory_names_def

subsection \<open>Creatures with a mind\<close>







subsection \<open>A creature with a level\<close>

text \<open>In \<open>level_env\<close> a level-scaled value resolves to the level it is given.\<close>

definition level_env :: env where
  "level_env = example_env\<lparr>sValue := \<lambda>spec level. Inr (show_int level)\<rparr>"

definition leveled_creature :: "string \<Rightarrow> QudObject" where
  "leveled_creature level =
     blueprint ''LeveledCreature''
       [(''part'', creature_parts),
        (''stat'', [(''Level'', [(''sValue'', level)]), (''Strength'', [(''sValue'', ''16,1d3'')]),
                    (''XPValue'', [(''sValue'', ''*XP'')])])]"

lemmas level_defs = level_env_def leveled_creature_def

subsection \<open>An item that uses charge\<close>

text \<open>
  What a part contributes to the charge use: its ChargeUse field when that is a positive
  integer, nothing otherwise; and the parts that contribute, in their order.
\<close>

definition part_charge :: "QudObject \<Rightarrow> string \<Rightarrow> int" where
  "part_charge e part =
     (case getattr3 e ''part'' part ''ChargeUse'' of
        None \<Rightarrow> 0
      | Some chg \<Rightarrow> (case int_str chg of Inl err \<Rightarrow> 0 | Inr n \<Rightarrow> if 0 < n then n else 0))"

definition charged_parts :: "QudObject \<Rightarrow> string list \<Rightarrow> string list" where
  "charged_parts e parts =
     filter (\<lambda>part. part \<noteq> ''ProgrammableRecoiler'' \<and> 0 < part_charge e part) parts"

definition charged_item :: QudObject where
  "charged_item =
     blueprint ''ChargedItem''
       [(''part'',
         [(''Physics'', [(''Takeable'', ''true'')]),
          (''Teleporter'', [(''ChargeUse'', ''5'')]),
          (''ProgrammableRecoiler'', [(''ChargeUse'', ''100'')]),
          (''EnergyCellSocket'', [(''ChargeUse'', ''0'')]),
          (''StunOnHit'', [(''ChargeUse'', ''10'')])])]"

definition override_env :: env where
  "override_env = example_env\<lparr>HARDCODED_CHARGE_USE := [(''ChargedItem'', 40)]\<rparr>"

lemmas charge_defs = part_charge_def charged_parts_def charged_item_def override_env_def

subsection \<open>Characters without stats, mutated creatures and missile weapons\<close>

definition statless_wall :: QudObject where
  "statless_wall = blueprint ''StatlessWall'' [(''part'', wall_parts)]"

definition clumsy_creature :: QudObject where
  "clumsy_creature =
     blueprint ''ClumsyCreature''
       [(''part'', creature_parts), (''stat'', [(''AV'', [(''Value'', ''2'')]), (''DV'', [(''Value'', ''1'')])])]"

definition fast_creature :: "attrs \<Rightarrow> elements \<Rightarrow> QudObject" where
  "fast_creature speed mutations =
     blueprint ''FastCreature''
       [(''part'', creature_parts), (''stat'', [(''Speed'', speed)]), (''mutation'', mutations)]"








lemmas stat_defs = statless_wall_def clumsy_creature_def fast_creature_def

section \<open>Verified properties\<close>

subsection \<open>Arithmetic of the rounding steps\<close>

lemma int_float_of_int_half:
  "int_float (real_of_int k / 2) = (if 0 \<le> k then k div 2 else - ((- k) div 2))"
proof (cases "0 \<le> k")
  case True
  have "\<lfloor>real_of_int k / real_of_int 2\<rfloor> = k div 2"
    by (rule floor_divide_of_int_eq)
  with True show ?thesis by (simp add: int_float_def)
next
  case False
  have "\<lfloor>real_of_int (- k) / real_of_int 2\<rfloor> = (- k) div 2"
    by (rule floor_divide_of_int_eq)
  then have "\<lceil>real_of_int k / 2\<rceil> = - ((- k) div 2)"
    by (simp add: ceiling_def)
  moreover from False have "\<not> 0 \<le> real_of_int k / 2" by simp
  ultimately show ?thesis by (simp add: int_float_def)
qed

lemma floor_half_of_int: "\<lfloor>(real_of_int v - 16) / 2\<rfloor> = (v - 16) div 2"
proof -
  have "\<lfloor>real_of_int (v - 16) / real_of_int 2\<rfloor> = (v - 16) div 2"
    by (rule floor_divide_of_int_eq)
  then show ?thesis by simp
qed

subsection \<open>Boosted attributes\<close>




subsection \<open>Attribute modifier\<close>

lemma mode_default_avg:
  "statmode \<noteq> ''min'' \<Longrightarrow> statmode \<noteq> ''max'' \<Longrightarrow>
   attribute_helper_min_max_or_avg env e attr statmode =
   attribute_helper_min_max_or_avg env e attr ''avg''"
  by (simp add: attribute_helper_min_max_or_avg_def split: sum.splits option.splits)

text \<open>
  C2. For every statmode, when the attribute resolves to the value \<open>v\<close> in that mode, the
  attribute modifier is \<open>(v - 16) / 2\<close> rounded toward negative infinity. The values 16,
  15, 18 and 0 give the modifiers 0, -1, 1 and -8.
\<close>

theorem attribute_modifier_floor:
  assumes "attribute_helper_min_max_or_avg env e attr statmode = Inr (Some v)"
  shows "attribute_helper_mod env e attr statmode = Inr (Some \<lfloor>(real_of_int v - 16) / 2\<rfloor>)"
proof -
  consider "statmode = ''min''" | "statmode = ''max''"
    | "statmode \<noteq> ''min''" "statmode \<noteq> ''max''" by blast
  then have "attribute_helper_mod env e attr statmode = Inr (Some ((v - 16) div 2))"
  proof cases
    case 1
    with assms show ?thesis
      by (simp add: attribute_helper_mod_def attribute_helper_min_def)
  next
    case 2
    with assms show ?thesis
      by (simp add: attribute_helper_mod_def attribute_helper_max_def)
  next
    case 3
    with assms mode_default_avg [OF 3, of env e attr] show ?thesis
      by (simp add: attribute_helper_mod_def attribute_helper_avg_def)
  qed
  then show ?thesis by (simp only: floor_half_of_int)
qed

lemma flat_creature_value:
  "int_str v = Inr n \<Longrightarrow> v \<noteq> [] \<Longrightarrow>
   attribute_helper_min_max_or_avg example_env (flat_creature v) ''Strength'' m = Inr (Some n)"
  by (auto simp add: flat_creature_def attribute_defs store_defs example_defs DiceBag_spec_def
      int_float_def int_or_none_def)

theorem attribute_modifier_floor_witness:
  "attribute_helper_mod example_env (flat_creature ''16'') ''Strength'' ''avg'' = Inr (Some 0)
   \<and> attribute_helper_mod example_env (flat_creature ''15'') ''Strength'' ''avg'' = Inr (Some (- 1))
   \<and> attribute_helper_mod example_env (flat_creature ''18'') ''Strength'' ''min'' = Inr (Some 1)
   \<and> attribute_helper_mod example_env (flat_creature ''0'') ''Strength'' ''max'' = Inr (Some (- 8))"
proof -
  have v16: "int_str ''16'' = Inr 16" and v15: "int_str ''15'' = Inr 15"
    and v18: "int_str ''18'' = Inr 18" and v0: "int_str ''0'' = Inr 0"
    by (simp_all add: int_defs)
  show ?thesis
    using attribute_modifier_floor [OF flat_creature_value [OF v16], of "''avg''"]
      attribute_modifier_floor [OF flat_creature_value [OF v15], of "''avg''"]
      attribute_modifier_floor [OF flat_creature_value [OF v18], of "''min''"]
      attribute_modifier_floor [OF flat_creature_value [OF v0], of "''max''"]
    by simp
qed

subsection \<open>Boost factor\<close>

text \<open>
  C3 (amended). For an active character whose Boost field is the integer \<open>t\<close>: when the
  attribute has a level-scaled value, the tier is \<open>t\<close>, lowered by one for a Minion on one
  of the \<^verbatim>\<open>STAT_NAMES\<close>; a positive tier gives the factor 1 + tier/4, any other tier
  gives 0.20 * tier + 1, that is 1 - |tier|/5 (the tier keeps its sign, the factor is at
  most one). When the attribute has no level-scaled value there is no boost factor.
\<close>

theorem boost_factor_signed_tier:
  assumes "active_or_inactive_character e = ACTIVE_CHAR"
    and "int_or_none (getattr3 e ''stat'' attr ''Boost'') = Inr (Some t)"
  shows "attribute_boost_factor env e attr =
           (if truthy_str (getattr3 e ''stat'' attr ''sValue'') then
              Inr (Some (if role e = Some ''Minion'' \<and> attr \<in> set (STAT_NAMES env) then
                           (if 0 < t - 1 then 1 + real_of_int (t - 1) / 4
                            else 1 - real_of_int \<bar>t - 1\<bar> / 5)
                         else
                           (if 0 < t then 1 + real_of_int t / 4
                            else 1 - real_of_int \<bar>t\<bar> / 5)))
            else Inr None)"
proof -
  have neg: "0.20 * real_of_int k + 1.0 = 1 - real_of_int \<bar>k\<bar> / 5" if "\<not> 0 < k" for k :: int
    using that by (simp add: abs_if)
  have pos: "0.25 * real_of_int k + 1.0 = 1 + real_of_int k / 4" for k :: int
    by simp
  show ?thesis
    using assms by (simp add: attribute_boost_factor_def Let_def neg pos del: of_int_diff)
qed

theorem boost_factor_signed_tier_witness:
  "attribute_boost_factor example_env boosted_creature ''Strength'' = Inr (Some (3 / 2))
   \<and> attribute_boost_factor example_env weakened_creature ''Strength'' = Inr (Some (4 / 5))
   \<and> attribute_boost_factor example_env minion_creature ''Strength'' = Inr (Some (5 / 4))
   \<and> attribute_boost_factor example_env unscaled_creature ''Strength'' = Inr None"
proof -
  have a: "active_or_inactive_character boosted_creature = ACTIVE_CHAR"
    "active_or_inactive_character weakened_creature = ACTIVE_CHAR"
    "active_or_inactive_character minion_creature = ACTIVE_CHAR"
    "active_or_inactive_character unscaled_creature = ACTIVE_CHAR"
    by (simp_all add: creature_defs attribute_defs store_defs example_defs)
  have b: "int_or_none (getattr3 boosted_creature ''stat'' ''Strength'' ''Boost'') = Inr (Some 2)"
    "int_or_none (getattr3 weakened_creature ''stat'' ''Strength'' ''Boost'') = Inr (Some (- 1))"
    "int_or_none (getattr3 minion_creature ''stat'' ''Strength'' ''Boost'') = Inr (Some 2)"
    "int_or_none (getattr3 unscaled_creature ''stat'' ''Strength'' ''Boost'') = Inr (Some 2)"
    by (simp_all add: creature_defs store_defs int_defs example_defs)
  show ?thesis
    using boost_factor_signed_tier [OF a(1) b(1), of example_env]
      boost_factor_signed_tier [OF a(2) b(2), of example_env]
      boost_factor_signed_tier [OF a(3) b(3), of example_env]
      boost_factor_signed_tier [OF a(4) b(4), of example_env]
    by (simp add: creature_defs attribute_defs store_defs example_defs)
qed

text \<open>
  The claim as stated takes the absolute value of a negative tier, and the Boost field
  itself as the tier: tier -1 would give the factor 1.2, and a Minion's tier 2 on Strength
  would give 1.5. The code gives 0.8 and 1.25.
\<close>

theorem boost_factor_absolute_counterexample:
  "active_or_inactive_character weakened_creature = ACTIVE_CHAR
   \<and> int_or_none (getattr3 weakened_creature ''stat'' ''Strength'' ''Boost'') = Inr (Some (- 1))
   \<and> truthy_str (getattr3 weakened_creature ''stat'' ''Strength'' ''sValue'')
   \<and> attribute_boost_factor example_env weakened_creature ''Strength'' = Inr (Some (4 / 5))
   \<and> attribute_boost_factor example_env weakened_creature ''Strength''
       \<noteq> Inr (Some (0.20 * real_of_int \<bar>- 1\<bar> + 1.0))
   \<and> int_or_none (getattr3 minion_creature ''stat'' ''Strength'' ''Boost'') = Inr (Some 2)
   \<and> attribute_boost_factor example_env minion_creature ''Strength''
       \<noteq> Inr (Some (0.25 * real_of_int 2 + 1.0))"
  by (simp add: creature_defs attribute_defs store_defs int_defs example_defs)

subsection \<open>Armor value\<close>

lemma add_inventory_sum:
  assumes "\<forall>nm \<in> set names. nm \<noteq> [] \<and>
             (hd nm \<notin> set ''*#@'' \<longrightarrow> (\<exists>item v. qindex env nm = Some item \<and> item_value item = Inr v))"
  shows "add_inventory env item_value applied names acc =
           Inr (acc + (\<Sum>nm\<leftarrow>filter (\<lambda>nm. hd nm \<notin> set ''*#@'') names.
                        case item_value (the (qindex env nm)) of
                          Inr (Some v) \<Rightarrow>
                            if applied \<and> wornon (the (qindex env nm)) = Some ''Body'' then 0 else v
                        | _ \<Rightarrow> 0))"
  using assms
proof (induction names arbitrary: acc)
  case Nil
  then show ?case by simp
next
  case (Cons nm names)
  then obtain c cs where nm: "nm = c # cs" by (cases nm) auto
  show ?case
  proof (cases "c \<in> set ''*#@''")
    case True
    with Cons nm show ?thesis by auto
  next
    case False
    with Cons.prems nm obtain item v where
      item: "qindex env nm = Some item" "item_value item = Inr v" by auto
    from Cons have IH: "\<And>acc. add_inventory env item_value applied names acc =
           Inr (acc + (\<Sum>nm\<leftarrow>filter (\<lambda>nm. hd nm \<notin> set ''*#@'') names.
                        case item_value (the (qindex env nm)) of
                          Inr (Some v) \<Rightarrow>
                            if applied \<and> wornon (the (qindex env nm)) = Some ''Body'' then 0 else v
                        | _ \<Rightarrow> 0))" by simp
    have hd: "hd nm \<notin> set ''*#@''" using False nm by simp
    show ?thesis
      unfolding nm add_inventory.simps
      using False item hd IH unfolding nm
      by (cases v) (auto simp add: truthy_int_def)
  qed
qed

lemma av_mutations_applied:
  "av_mutations muts st = Inr st' \<Longrightarrow>
   snd st' = (snd st \<or> ''Carapace'' \<in> fst ` set muts \<or> ''Quills'' \<in> fst ` set muts)"
proof (induction muts arbitrary: st)
  case Nil
  then show ?case by simp
next
  case (Cons m muts)
  obtain mutation info where m: "m = (mutation, info)" by (cases m)
  from Cons.prems m obtain st1 where
    s1: "av_mutation mutation info st = Inr st1" and s2: "av_mutations muts st1 = Inr st'"
    by (auto split: sum.splits)
  from s1 have "snd st1 = (snd st \<or> mutation = ''Carapace'' \<or> mutation = ''Quills'')"
    by (auto simp add: av_mutation_def split: if_splits sum.splits)
  with Cons.IH [OF s2] m show ?case by auto
qed

text \<open>
  A deeper bound does not change a result: \<^verbatim>\<open>av\<close> depends on the depth only through
  the recursion limit.
\<close>

lemma add_inventory_mono:
  assumes "add_inventory env f applied names acc = Inr r"
    and "\<And>item v. f item = Inr v \<Longrightarrow> g item = Inr v"
  shows "add_inventory env g applied names acc = Inr r"
  using assms(1)
proof (induction names arbitrary: acc)
  case Nil
  then show ?case by simp
next
  case (Cons nm names)
  show ?case
  proof (cases nm)
    case Nil
    with Cons.prems show ?thesis by simp
  next
    case (Cons c cs)
    note nm = this
    show ?thesis
    proof (cases "c \<in> set ''*#@''")
      case True
      with Cons.prems Cons.IH nm show ?thesis by auto
    next
      case False
      with Cons.prems nm obtain item v where
        item: "qindex env nm = Some item" "f item = Inr v"
        by (auto split: option.splits sum.splits)
      from assms(2) [OF item(2)] have g: "g item = Inr v" .
      from Cons.prems Cons.IH False nm item g show ?thesis
        by (auto split: if_splits)
    qed
  qed
qed

lemma av_depth_mono: "av depth env e = Inr r \<Longrightarrow> av (Suc depth) env e = Inr r"
proof (induction depth arbitrary: e r)
  case 0
  then show ?case by simp
next
  case (Suc depth)
  have step: "\<And>item v. av depth env item = Inr v \<Longrightarrow> av (Suc depth) env item = Inr v"
    using Suc.IH by blast
  show ?case
  proof (cases "0 < active_or_inactive_character e")
    case False
    with Suc.prems show ?thesis by simp
  next
    case True
    with Suc.prems obtain base st res where
      b: "int_opt (getattr3 e ''stat'' ''AV'' ''Value'') = Inr base"
      and m: "av_mutations (mutation_items e) (base, False) = Inr st"
      and i: "add_inventory env (av depth env) (snd st) (inventory_names e) (fst st) = Inr res"
      and r: "r = Some res"
      by (auto split: sum.splits)
    from add_inventory_mono [OF i step]
    have "add_inventory env (av (Suc depth) env) (snd st) (inventory_names e) (fst st) = Inr res" .
    with True b m r show ?thesis by (simp del: add_inventory.simps)
  qed
qed

text \<open>
  C4. For a character whose AV stat is \<open>base\<close> and whose mutations raise it to \<open>bonus\<close>,
  with \<open>applied\<close> telling whether a body-slot mutation (Carapace or Quills) fired: the AV
  is \<open>bonus\<close> plus the AV of the inventory entries whose names do not begin with one of
  the markers \<^verbatim>\<open>*#@\<close>, where an item worn on "Body" contributes nothing when \<open>applied\<close>
  holds, and every other item contributes its AV whatever \<open>applied\<close> is (an item
  without AV contributes nothing).
\<close>

theorem av_inventory_slot_exclusive:
  assumes "0 < active_or_inactive_character e"
    and "int_opt (getattr3 e ''stat'' ''AV'' ''Value'') = Inr base"
    and "av_mutations (mutation_items e) (base, False) = Inr (bonus, applied)"
    and "\<forall>nm \<in> set (inventory_names e). nm \<noteq> [] \<and>
           (hd nm \<notin> set ''*#@'' \<longrightarrow>
              (\<exists>item v. qindex env nm = Some item \<and> av depth env item = Inr v))"
  shows "av (Suc depth) env e =
           Inr (Some (bonus + (\<Sum>nm\<leftarrow>filter (\<lambda>nm. hd nm \<notin> set ''*#@'') (inventory_names e).
                        case av depth env (the (qindex env nm)) of
                          Inr (Some v) \<Rightarrow>
                            if applied \<and> wornon (the (qindex env nm)) = Some ''Body'' then 0 else v
                        | _ \<Rightarrow> 0)))
       \<and> applied = (''Carapace'' \<in> fst ` set (mutation_items e)
                     \<or> ''Quills'' \<in> fst ` set (mutation_items e))"
proof
  show "av (Suc depth) env e =
           Inr (Some (bonus + (\<Sum>nm\<leftarrow>filter (\<lambda>nm. hd nm \<notin> set ''*#@'') (inventory_names e).
                        case av depth env (the (qindex env nm)) of
                          Inr (Some v) \<Rightarrow>
                            if applied \<and> wornon (the (qindex env nm)) = Some ''Body'' then 0 else v
                        | _ \<Rightarrow> 0)))"
    using assms(1-3) add_inventory_sum [OF assms(4), of applied bonus] by simp
  show "applied = (''Carapace'' \<in> fst ` set (mutation_items e)
                     \<or> ''Quills'' \<in> fst ` set (mutation_items e))"
    using av_mutations_applied [OF assms(3)] by simp
qed

theorem av_inventory_slot_exclusive_witness:
  "av 2 wardrobe_env (armored_creature [(''Carapace'', [(''Level'', ''4'')])]) = Inr (Some 8)
   \<and> av 2 wardrobe_env (armored_creature [(''Horns'', [(''Level'', ''4'')])]) = Inr (Some 8)"
proof -
  let ?c = "armored_creature [(''Carapace'', [(''Level'', ''4'')])]"
  let ?h = "armored_creature [(''Horns'', [(''Level'', ''4'')])]"
  have items: "av (Suc 0) wardrobe_env leather_armor = Inr (Some 3)"
    "av (Suc 0) wardrobe_env iron_helmet = Inr (Some 1)"
    by (simp_all add: wardrobe_defs attribute_defs store_defs int_defs)
  have char: "0 < active_or_inactive_character ?c" "0 < active_or_inactive_character ?h"
    by (simp_all add: wardrobe_defs attribute_defs store_defs example_defs)
  have base: "int_opt (getattr3 ?c ''stat'' ''AV'' ''Value'') = Inr 2"
    "int_opt (getattr3 ?h ''stat'' ''AV'' ''Value'') = Inr 2"
    by (simp_all add: wardrobe_defs store_defs int_defs)
  have muts: "av_mutations (mutation_items ?c) (2, False) = Inr (7, True)"
    "av_mutations (mutation_items ?h) (2, False) = Inr (4, False)"
    by (simp_all add: wardrobe_defs store_defs int_defs av_defs)
  have names: "inventory_names ?c = [''*Junk 1'', ''LeatherArmor'', ''IronHelmet'']"
    "inventory_names ?h = [''*Junk 1'', ''LeatherArmor'', ''IronHelmet'']"
    by (simp_all add: wardrobe_defs store_defs av_defs)
  have index: "qindex wardrobe_env ''LeatherArmor'' = Some leather_armor"
    "qindex wardrobe_env ''IronHelmet'' = Some iron_helmet"
    by (simp_all add: wardrobe_env_def)
  have worn: "wornon leather_armor = Some ''Body''" "wornon iron_helmet = Some ''Head''"
    by (simp_all add: wardrobe_defs store_defs av_defs)
  have inv: "\<forall>nm \<in> set (inventory_names ?c). nm \<noteq> [] \<and>
           (hd nm \<notin> set ''*#@'' \<longrightarrow>
              (\<exists>item v. qindex wardrobe_env nm = Some item \<and> av (Suc 0) wardrobe_env item = Inr v))"
    "\<forall>nm \<in> set (inventory_names ?h). nm \<noteq> [] \<and>
           (hd nm \<notin> set ''*#@'' \<longrightarrow>
              (\<exists>item v. qindex wardrobe_env nm = Some item \<and> av (Suc 0) wardrobe_env item = Inr v))"
    unfolding names using index items by simp_all
  have two: "(2::nat) = Suc (Suc 0)" by simp
  show ?thesis
    unfolding two
    using av_inventory_slot_exclusive [OF char(1) base(1) muts(1) inv(1)]
      av_inventory_slot_exclusive [OF char(2) base(2) muts(2) inv(2)]
    unfolding names by (simp add: index items worn del: av.simps)
qed

subsection \<open>Mental armor\<close>



subsection \<open>Levels given as a range\<close>

lemma digit_not_special:
  "is_digit c \<Longrightarrow> \<not> is_space c \<and> c \<noteq> CHR ''-'' \<and> c \<noteq> CHR ''+'' \<and> c \<noteq> CHR ''_''"
  by (auto simp add: is_digit_def is_space_def)

lemma digits_value_digits:
  "list_all is_digit ds \<Longrightarrow>
   digits_value prev acc (ds @ rest) =
     digits_value (prev \<or> ds \<noteq> []) (foldl (\<lambda>acc c. 10 * acc + digit_val c) acc ds) rest"
  by (induction ds arbitrary: prev acc) auto

lemma strip_digits_prefix:
  assumes "ds \<noteq> []" "list_all is_digit ds"
  shows "\<exists>rest'. strip (ds @ CHR ''-'' # rest) = ds @ CHR ''-'' # rest'"
proof -
  from assms obtain c cs where ds: "ds = c # cs" and c: "is_digit c"
    by (cases ds) auto
  have front: "dropWhile is_space (ds @ CHR ''-'' # rest) = ds @ CHR ''-'' # rest"
    using ds c digit_not_special by simp
  have hy: "\<not> is_space (CHR ''-'')" by (simp add: is_space_def)
  have "\<exists>r. dropWhile is_space (rev rest @ CHR ''-'' # rev ds) = r @ CHR ''-'' # rev ds"
  proof (cases "\<forall>x \<in> set (rev rest). is_space x")
    case True
    then have "dropWhile is_space (rev rest @ CHR ''-'' # rev ds) = [] @ CHR ''-'' # rev ds"
      using hy by (simp add: dropWhile_append)
    then show ?thesis by blast
  next
    case False
    then have "dropWhile is_space (rev rest @ CHR ''-'' # rev ds)
                 = dropWhile is_space (rev rest) @ CHR ''-'' # rev ds"
      by (auto simp add: dropWhile_append)
    then show ?thesis by blast
  qed
  then obtain r where "dropWhile is_space (rev rest @ CHR ''-'' # rev ds) = r @ CHR ''-'' # rev ds"
    by blast
  then have "strip (ds @ CHR ''-'' # rest) = ds @ CHR ''-'' # rev r"
    unfolding strip_def front by simp
  then show ?thesis by blast
qed

lemma strip_digits:
  assumes "ds \<noteq> []" "list_all is_digit ds"
  shows "strip ds = ds"
proof -
  from assms obtain c cs where ds: "ds = c # cs" and c: "is_digit c"
    by (cases ds) auto
  have front: "dropWhile is_space ds = ds"
    using ds c digit_not_special by simp
  from assms have "rev ds \<noteq> []" "list_all is_digit (rev ds)" by simp_all
  then obtain c' cs' where rds: "rev ds = c' # cs'" and c': "is_digit c'"
    by (cases "rev ds") auto
  have "dropWhile is_space (rev ds) = rev ds"
    using rds c' digit_not_special by simp
  then show ?thesis by (simp add: strip_def front)
qed

lemma int_str_range:
  assumes "ds \<noteq> []" "list_all is_digit ds"
  shows "int_str (ds @ CHR ''-'' # rest) = Inl ValueError"
proof -
  from strip_digits_prefix [OF assms] obtain rest' where
    s: "strip (ds @ CHR ''-'' # rest) = ds @ CHR ''-'' # rest'" by blast
  from assms obtain c cs where ds: "ds = c # cs" and c: "is_digit c"
    by (cases ds) auto
  have "digits_value False 0 (ds @ CHR ''-'' # rest') = None"
    using digits_value_digits [OF assms(2), of False 0 "CHR ''-'' # rest'"] assms(1)
    by (simp add: is_digit_def)
  then show ?thesis
    using s ds c digit_not_special [OF c] by (simp add: int_str_def)
qed

lemma int_str_digits:
  assumes "ds \<noteq> []" "list_all is_digit ds"
  shows "int_str ds = Inr (the (nat_digits ds))"
proof -
  from assms obtain c cs where ds: "ds = c # cs" and c: "is_digit c"
    by (cases ds) auto
  have "digits_value False 0 ds = Some (foldl (\<lambda>acc c. 10 * acc + digit_val c) 0 ds)"
    using digits_value_digits [OF assms(2), of False 0 "[]"] assms(1) by simp
  then show ?thesis
    using strip_digits [OF assms] ds c digit_not_special [OF c] assms
    by (simp add: int_str_def nat_digits_def)
qed

lemma split_first_range:
  assumes "list_all is_digit ds"
  shows "split_first (ds @ CHR ''-'' # rest) = ds"
proof -
  have "\<forall>c \<in> set ds. c \<noteq> CHR ''-''"
    using assms digit_not_special by (auto simp add: list_all_iff)
  then show ?thesis by (simp add: split_first_def takeWhile_tail)
qed

lemma level_of_range:
  assumes "ds \<noteq> []" "list_all is_digit ds"
  shows "level_of (Some (ds @ CHR ''-'' # rest)) = Inr (the (nat_digits ds))"
  using int_str_range [OF assms] int_str_digits [OF assms] split_first_range [OF assms(2)]
  by (simp add: level_of_def)

text \<open>
  C6 (amended). When the level field is a range, the digits of a number \<open>n\<close>, a hyphen
  and any text (such as "18-29"): the attribute resolution of an active character
  evaluates the level-scaled value at level \<open>n\<close>, the tier computed from the level is
  \<open>n div 5\<close>, and \<^verbatim>\<open>xpvalue\<close> and \<^verbatim>\<open>xptier\<close> are absent. None of them raises because
  of the level.
\<close>

theorem range_level_lower_bound:
  assumes "lv e = Some (ds @ CHR ''-'' # rest)"
    and "nat_digits ds = Some n"
  shows "(active_or_inactive_character e = ACTIVE_CHAR
            \<and> getattr3 e ''stat'' attr ''sValue'' = Some spec \<and> spec \<noteq> [] \<longrightarrow>
          attribute_helper env e attr =
            (case sValue env spec n of Inl err \<Rightarrow> Inl err | Inr val \<Rightarrow> Inr (Some val)))
       \<and> (\<not> is_specified3 e ''tag'' ''Tier'' ''Value''
            \<and> \<not> is_specified3 e ''part'' ''TinkerItem'' ''Bits'' \<longrightarrow>
          tier e = Inr (Some (n div 5)))
       \<and> xpvalue e = Inr None
       \<and> xptier e = Inr None"
proof -
  from assms(2) have ds: "ds \<noteq> []" "list_all is_digit ds"
    by (simp_all add: nat_digits_def split: if_splits)
  from assms have lvl: "level_of (lv e) = Inr n"
    using level_of_range [OF ds, of rest] by simp
  from assms(1) have caught: "caught_level e = Inr None"
    using int_str_range [OF ds, of rest] by (simp add: caught_level_def int_or_none_def)
  show ?thesis
    using assms(1) lvl caught
    by (simp add: attribute_helper_def tier_def xpvalue_def xptier_def truthy_str_def)
qed

theorem range_level_lower_bound_witness:
  "attribute_helper level_env (leveled_creature ''18-29'') ''Strength'' = Inr (Some ''18'')
   \<and> tier (leveled_creature ''18-29'') = Inr (Some 3)
   \<and> xpvalue (leveled_creature ''18-29'') = Inr None
   \<and> xptier (leveled_creature ''18-29'') = Inr None"
proof -
  let ?e = "leveled_creature ''18-29''"
  have l: "lv ?e = Some (''18'' @ CHR ''-'' # ''29'')"
    by (simp add: level_defs lv_def store_defs)
  have n: "nat_digits ''18'' = Some 18"
    by (simp add: nat_digits_def is_digit_def digit_val_def)
  have a: "active_or_inactive_character ?e = ACTIVE_CHAR"
    "getattr3 ?e ''stat'' ''Strength'' ''sValue'' = Some ''16,1d3''"
    "\<not> is_specified3 ?e ''tag'' ''Tier'' ''Value''"
    "\<not> is_specified3 ?e ''part'' ''TinkerItem'' ''Bits''"
    by (simp_all add: level_defs attribute_defs store_defs example_defs)
  have s: "sValue level_env ''16,1d3'' 18 = Inr ''18''"
    by (simp add: level_env_def show_int_def)
  show ?thesis
    using range_level_lower_bound [OF l n, of "''Strength''" "''16,1d3''" level_env]
    by (simp add: a s)
qed

text \<open>
  The claim as stated lets the XP value take the lower bound too: a creature of level
  "18-29" with XP value "*XP" and no role would have 180, as the same creature of level
  "18" has. The code catches the \<^verbatim>\<open>ValueError\<close> and returns nothing.
\<close>

theorem range_level_xpvalue_counterexample:
  "lv (leveled_creature ''18-29'') = Some ''18-29''
   \<and> split_first ''18-29'' = ''18''
   \<and> xpvalue (leveled_creature ''18-29'') = Inr None
   \<and> xpvalue (leveled_creature ''18'') = Inr (Some 180)"
  by (simp add: level_defs lv_def role_def store_defs property_defs int_defs)

subsection \<open>Charge use\<close>

lemma charge_loop_sum:
  assumes "\<forall>part \<in> set parts. part \<noteq> ''ProgrammableRecoiler'' \<longrightarrow>
             (\<forall>chg. getattr3 e ''part'' part ''ChargeUse'' = Some chg \<longrightarrow> (\<exists>n. int_str chg = Inr n))"
  shows "charge_loop e parts acc = Inr (acc + (\<Sum>part\<leftarrow>charged_parts e parts. part_charge e part))"
  using assms
proof (induction parts arbitrary: acc)
  case Nil
  then show ?case by (simp add: charged_parts_def)
next
  case (Cons part parts)
  then have IH: "\<And>acc. charge_loop e parts acc =
      Inr (acc + (\<Sum>part\<leftarrow>charged_parts e parts. part_charge e part))"
    by simp
  show ?case
  proof (cases "part = ''ProgrammableRecoiler''")
    case True
    then show ?thesis using IH by (simp add: charged_parts_def)
  next
    case False
    show ?thesis
    proof (cases "getattr3 e ''part'' part ''ChargeUse''")
      case None
      with False IH show ?thesis by (simp add: charged_parts_def part_charge_def)
    next
      case (Some chg)
      with False Cons.prems obtain n where n: "int_str chg = Inr n" by auto
      with False Some IH show ?thesis by (simp add: charged_parts_def part_charge_def)
    qed
  qed
qed

lemma function_loop_map:
  assumes "\<forall>part \<in> set parts. part \<noteq> ''ProgrammableRecoiler'' \<longrightarrow>
             (\<forall>chg. getattr3 e ''part'' part ''ChargeUse'' = Some chg \<longrightarrow> (\<exists>n. int_str chg = Inr n))"
  shows "function_loop e parts =
           Inr (map (\<lambda>part. (charge_func e part,
                             charge_func e part @ '' [''
                               @ the (getattr3 e ''part'' part ''ChargeUse'') @ '']''))
                  (charged_parts e parts))"
  using assms
proof (induction parts)
  case Nil
  then show ?case by (simp add: charged_parts_def)
next
  case (Cons part parts)
  then have IH: "function_loop e parts =
           Inr (map (\<lambda>part. (charge_func e part,
                             charge_func e part @ '' [''
                               @ the (getattr3 e ''part'' part ''ChargeUse'') @ '']''))
                  (charged_parts e parts))"
    by simp
  show ?case
  proof (cases "part = ''ProgrammableRecoiler''")
    case True
    then show ?thesis using IH by (simp add: charged_parts_def)
  next
    case False
    show ?thesis
    proof (cases "getattr3 e ''part'' part ''ChargeUse''")
      case None
      with False IH show ?thesis by (simp add: charged_parts_def part_charge_def)
    next
      case (Some chg)
      with False Cons.prems obtain n where n: "int_str chg = Inr n" by auto
      with False Some IH show ?thesis by (simp add: charged_parts_def part_charge_def)
    qed
  qed
qed

text \<open>
  C7. When the ChargeUse fields of the parts are integers: the charge used is the sum of
  the ChargeUse of every part with a positive ChargeUse, ProgrammableRecoiler left out,
  or the hardcoded value for the entity's name when there is one; a total that is not
  positive is reported as absent. Without an entry in \<^verbatim>\<open>CHARGE_USE_REASONS\<close>, the charge
  function is absent when no part contributes, the label of the part when one does, and
  otherwise the labels of all contributing parts, each followed by its ChargeUse in
  brackets, joined by commas. Parts of 5 and 10 give 15 and "Teleportation [5], Stun
  effect [10]".
\<close>

theorem chargeused_sum:
  assumes "part_names e = Inr parts"
    and "\<forall>part \<in> set parts. part \<noteq> ''ProgrammableRecoiler'' \<longrightarrow>
           (\<forall>chg. getattr3 e ''part'' part ''ChargeUse'' = Some chg \<longrightarrow> (\<exists>n. int_str chg = Inr n))"
  shows "chargeused env e =
           (let charge = (case map_of (HARDCODED_CHARGE_USE env) (name e) of
                            Some hardcoded \<Rightarrow> hardcoded
                          | None \<Rightarrow> (\<Sum>part\<leftarrow>charged_parts e parts. part_charge e part))
            in if 0 < charge then Inr (Some charge) else Inr None)
       \<and> (map_of (CHARGE_USE_REASONS env) (name e) = None \<longrightarrow>
          chargefunction env e =
            (if charged_parts e parts = [] then Inr None
             else if length (charged_parts e parts) = 1
               then Inr (Some (charge_func e (hd (charged_parts e parts))))
             else Inr (Some (join '', ''
                    (map (\<lambda>part. charge_func e part @ '' [''
                                   @ the (getattr3 e ''part'' part ''ChargeUse'') @ '']'')
                       (charged_parts e parts))))))"
proof -
  have "chargeused env e =
           (let charge = (case map_of (HARDCODED_CHARGE_USE env) (name e) of
                            Some hardcoded \<Rightarrow> hardcoded
                          | None \<Rightarrow> (\<Sum>part\<leftarrow>charged_parts e parts. part_charge e part))
            in if 0 < charge then Inr (Some charge) else Inr None)"
    using assms(1) charge_loop_sum [OF assms(2), of 0]
    by (simp add: chargeused_def split: option.splits)
  moreover have "chargefunction env e =
            (if charged_parts e parts = [] then Inr None
             else if length (charged_parts e parts) = 1
               then Inr (Some (charge_func e (hd (charged_parts e parts))))
             else Inr (Some (join '', ''
                    (map (\<lambda>part. charge_func e part @ '' [''
                                   @ the (getattr3 e ''part'' part ''ChargeUse'') @ '']'')
                       (charged_parts e parts)))))"
    if "map_of (CHARGE_USE_REASONS env) (name e) = None"
    using assms(1) that function_loop_map [OF assms(2)]
    by (simp add: chargefunction_def Let_def comp_def hd_map)
  ultimately show ?thesis by simp
qed

theorem chargeused_sum_witness:
  "chargeused example_env charged_item = Inr (Some 15)
   \<and> chargefunction example_env charged_item = Inr (Some ''Teleportation [5], Stun effect [10]'')
   \<and> chargeused override_env charged_item = Inr (Some 40)"
proof -
  let ?parts = "[''Physics'', ''Teleporter'', ''ProgrammableRecoiler'', ''EnergyCellSocket'', ''StunOnHit'']"
  have names: "part_names charged_item = Inr ?parts"
    by (simp add: charged_item_def part_names_def blueprint_def)
  have fields: "getattr3 charged_item ''part'' ''Physics'' ''ChargeUse'' = None"
    "getattr3 charged_item ''part'' ''Teleporter'' ''ChargeUse'' = Some ''5''"
    "getattr3 charged_item ''part'' ''EnergyCellSocket'' ''ChargeUse'' = Some ''0''"
    "getattr3 charged_item ''part'' ''StunOnHit'' ''ChargeUse'' = Some ''10''"
    "getattr3 charged_item ''part'' ''Teleporter'' ''NameForStatus'' = None"
    "getattr3 charged_item ''part'' ''StunOnHit'' ''NameForStatus'' = None"
    by (simp_all add: charged_item_def store_defs)
  have ints: "int_str ''5'' = Inr 5" "int_str ''0'' = Inr 0" "int_str ''10'' = Inr 10"
    by (simp_all add: int_defs)
  have parse: "\<forall>part \<in> set ?parts. part \<noteq> ''ProgrammableRecoiler'' \<longrightarrow>
           (\<forall>chg. getattr3 charged_item ''part'' part ''ChargeUse'' = Some chg
              \<longrightarrow> (\<exists>n. int_str chg = Inr n))"
    by (simp add: fields ints)
  have charged: "charged_parts charged_item ?parts = [''Teleporter'', ''StunOnHit'']"
    by (simp add: charged_parts_def part_charge_def fields ints)
  have charges: "part_charge charged_item ''Teleporter'' = 5"
    "part_charge charged_item ''StunOnHit'' = 10"
    by (simp_all add: part_charge_def fields ints)
  have tables: "map_of (HARDCODED_CHARGE_USE example_env) (name charged_item) = None"
    "map_of (CHARGE_USE_REASONS example_env) (name charged_item) = None"
    "map_of (HARDCODED_CHARGE_USE override_env) (name charged_item) = Some 40"
    by (simp_all add: example_env_def override_env_def charged_item_def blueprint_def)
  show ?thesis
    using chargeused_sum [OF names parse, of example_env]
      chargeused_sum [OF names parse, of override_env]
    by (simp add: charged charges tables charge_func_def fields Let_def)
qed

subsection \<open>Omniphase projectiles\<close>

lemma projectile_loop_blueprint:
  "projectile_loop env e None parts \<noteq> Inr (Some (Attribute s))"
  by (induction parts) (auto split: option.splits)

lemma projectile_object_blueprint:
  "projectile_object env e None \<noteq> Inr (Some (Attribute s))"
  by (simp add: projectile_object_def projectile_loop_blueprint del: projectile_loop.simps)



subsection \<open>Missing stats\<close>

text \<open>
  C8. The code at the failing inputs: an inactive character without an AV stat, for which
  \<^verbatim>\<open>av\<close> evaluates \<^verbatim>\<open>int(None)\<close>, and an active character without an Agility stat,
  for which \<^verbatim>\<open>dv\<close> adds \<^verbatim>\<open>None\<close> to an integer. Both raise \<^verbatim>\<open>TypeError\<close>.
\<close>

theorem av_dv_missing_stat_raises:
  "active_or_inactive_character statless_wall = INACTIVE_CHAR
   \<and> getattr3 statless_wall ''stat'' ''AV'' ''Value'' = None
   \<and> av (Suc 0) example_env statless_wall = Inl TypeError
   \<and> active_or_inactive_character clumsy_creature = ACTIVE_CHAR
   \<and> attribute_helper_mod example_env clumsy_creature ''Agility'' ''avg'' = Inr None
   \<and> dv (Suc 0) example_env clumsy_creature = Inl TypeError"
  by (simp add: stat_defs attribute_defs store_defs example_defs int_defs av_defs)

subsection \<open>Quickness\<close>

text \<open>
  C9. The code at the failing inputs: with a Speed stat of 100 the quickness is 100, with
  HeightenedSpeed at level 1 (which would give 115) and with ColdBlooded (which would
  give 90); the mutations count only when the Speed stat is absent, on the base 100.
\<close>

theorem quickness_ignores_mutations:
  "quickness (fast_creature [(''Value'', ''100'')] [(''HeightenedSpeed'', [(''Level'', ''1'')])])
     = Inr (Some 100)
   \<and> quickness (fast_creature [(''Value'', ''100'')] [(''ColdBlooded'', [])]) = Inr (Some 100)
   \<and> quickness (fast_creature [] [(''HeightenedSpeed'', [(''Level'', ''1'')])]) = Inr (Some 115)
   \<and> quickness (fast_creature [] [(''ColdBlooded'', [])]) = Inr (Some 90)"
  by (simp add: stat_defs attribute_defs store_defs example_defs int_defs av_defs quickness_def)

end
